theory Spec2Isabelle
  imports
    Main
    "HOL-Library.Char_ord"
    "HOL-Library.List_Lexorder"
    "HOL-Library.Product_Lexorder"
    "HOL-Library.Multiset"
begin

section \<open>Python strings and integers\<close>

text \<open>
  The zone manager is written in Python. A Python \<open>str\<close> is modelled as a \<open>string\<close>,
  one \<open>char\<close> per code point, so the model covers text whose code points are below 256.
  The predicates below follow Python's behaviour on that range; \<open>str_upper\<close> is exact on
  ASCII text and leaves every other character as it is. A Python \<open>int\<close> is an \<open>int\<close>.
  The interpreter refuses to convert an integer of more than 4300 decimal digits to text,
  or a literal of more than 4300 digits to an integer: \<open>str_int\<close> is the text of an
  integer, and \<open>format_int\<close> and \<open>py_int\<close> below are the two conversions with their
  errors.
\<close>

definition is_space :: "char \<Rightarrow> bool" where
  \<comment> \<open>\<open>str.isspace\<close> on one character: TAB, LF, VT, FF, CR, FS, GS, RS, US, SPACE, NEL, NBSP\<close>
  "is_space c =
     (let n = (of_char c :: int)
      in (9 \<le> n \<and> n \<le> 13) \<or> (28 \<le> n \<and> n \<le> 32) \<or> n = 133 \<or> n = 160)"

definition is_ascii_digit :: "char \<Rightarrow> bool" where
  "is_ascii_digit c = (CHR ''0'' \<le> c \<and> c \<le> CHR ''9'')"

definition is_digit_char :: "char \<Rightarrow> bool" where
  \<comment> \<open>\<open>str.isdigit\<close> on one character: the ASCII digits and the superscripts 2, 3 and 1\<close>
  "is_digit_char c =
     (is_ascii_digit c \<or> c = CHR 0xB2 \<or> c = CHR 0xB3 \<or> c = CHR 0xB9)"

definition py_isdigit :: "string \<Rightarrow> bool" where
  \<comment> \<open>\<open>s.isdigit()\<close>: non-empty and every character a digit\<close>
  "py_isdigit s = (s \<noteq> [] \<and> list_all is_digit_char s)"

definition upper_char :: "char \<Rightarrow> char" where
  "upper_char c =
     (if CHR ''a'' \<le> c \<and> c \<le> CHR ''z'' then char_of (of_char c - (32::int)) else c)"

definition str_upper :: "string \<Rightarrow> string" where
  \<comment> \<open>\<open>s.upper()\<close>\<close>
  "str_upper s = map upper_char s"

definition startswith :: "string \<Rightarrow> string \<Rightarrow> bool" where
  \<comment> \<open>\<open>s.startswith(p)\<close>\<close>
  "startswith s p = (take (length p) s = p)"

definition py_strip :: "string \<Rightarrow> string" where
  \<comment> \<open>\<open>s.strip()\<close>: leading and trailing whitespace removed\<close>
  "py_strip s = rev (dropWhile is_space (rev (dropWhile is_space s)))"

definition rstrip_dot :: "string \<Rightarrow> string" where
  \<comment> \<open>\<open>s.rstrip(".")\<close>: every trailing dot removed\<close>
  "rstrip_dot s = rev (dropWhile (\<lambda>c. c = CHR ''.'') (rev s))"

fun split_aux :: "string \<Rightarrow> string \<Rightarrow> string list" where
  "split_aux cur [] = (if cur = [] then [] else [cur])"
| "split_aux cur (c # cs) =
     (if is_space c
      then (if cur = [] then split_aux [] cs else cur # split_aux [] cs)
      else split_aux (cur @ [c]) cs)"

definition py_split :: "string \<Rightarrow> string list" where
  \<comment> \<open>\<open>s.split()\<close>: the maximal runs of non-whitespace characters, in order\<close>
  "py_split s = split_aux [] s"

fun py_join :: "string \<Rightarrow> string list \<Rightarrow> string" where
  \<comment> \<open>\<open>sep.join(xs)\<close>\<close>
  "py_join sep [] = []"
| "py_join sep [x] = x"
| "py_join sep (x # y # ys) = x @ sep @ py_join sep (y # ys)"

definition digit_char :: "int \<Rightarrow> char" where
  "digit_char d = char_of (48 + d)"

function str_digits :: "int \<Rightarrow> string" where
  \<comment> \<open>the decimal digits of an integer that is not negative\<close>
  "str_digits n =
     (if n < 10 then [digit_char n] else str_digits (n div 10) @ [digit_char (n mod 10)])"
  by pat_completeness auto
termination
  by (relation "measure nat") auto

declare str_digits.simps [simp del]

definition str_int :: "int \<Rightarrow> string" where
  \<comment> \<open>\<open>str(i)\<close>, the text an f-string puts for an integer\<close>
  "str_int i = (if i < 0 then CHR ''-'' # str_digits (- i) else str_digits i)"

definition digit_val :: "char \<Rightarrow> int" where
  "digit_val c = of_char c - 48"

section \<open>Data structures\<close>

text \<open>
  The two dataclasses of the source. The field \<open>value\<close> of \<open>DnsRecord\<close> is called
  \<open>rvalue\<close> here, and the fields \<open>name\<close> and \<open>ttl\<close> of \<open>Zone\<close> are called
  \<open>zone_name\<close> and \<open>zone_ttl\<close>, since a record field is a constant of the theory.
\<close>

record DnsRecord =
  record_type :: string
  name :: string
  rvalue :: string
  ttl :: int
  priority :: "int option"
  record_id :: "int option"

record Zone =
  zone_name :: string
  zone_ttl :: int
  serial :: int
  nameservers :: "string list"
  records :: "DnsRecord list"
  zone_id :: "int option"

definition default_nameservers :: "string list" where
  "default_nameservers = [''ns1.blackroad.io.'', ''ns2.blackroad.io.'']"

datatype error =
    ValueError string
  | IndexError
  | FileNotFoundError string
  | OverflowError

definition and_then :: "error + 'a \<Rightarrow> ('a \<Rightarrow> error + 'b) \<Rightarrow> error + 'b" where
  \<comment> \<open>the next step runs on the value of the step before, unless that step raised\<close>
  "and_then x f = (case x of Inl e \<Rightarrow> Inl e | Inr v \<Rightarrow> f v)"

fun map_result :: "('a \<Rightarrow> error + 'b) \<Rightarrow> 'a list \<Rightarrow> error + 'b list" where
  \<comment> \<open>a loop that builds one item per element and stops at the first error\<close>
  "map_result f [] = Inr []"
| "map_result f (x # xs) =
     and_then (f x) (\<lambda>y. and_then (map_result f xs) (\<lambda>ys. Inr (y # ys)))"

section \<open>Conversions between integers and text\<close>

definition int_max_str_digits :: nat where
  \<comment> \<open>\<open>sys.get_int_max_str_digits()\<close>, at its default\<close>
  "int_max_str_digits = 4300"

definition digit_limit_error :: error where
  "digit_limit_error =
     ValueError (''Exceeds the limit (4300 digits) for integer string conversion; ''
       @ ''use sys.set_int_max_str_digits() to increase the limit'')"

definition format_int :: "int \<Rightarrow> error + string" where
  \<comment> \<open>an integer in an f-string: \<open>str(i)\<close>, refused when \<open>i\<close> has too many digits\<close>
  "format_int i =
     (if int_max_str_digits < length (str_digits (abs i)) then Inl digit_limit_error
      else Inr (str_int i))"

definition invalid_literal :: error where
  \<comment> \<open>the interpreter's message ends with the literal, which is left out\<close>
  "invalid_literal = ValueError ''invalid literal for int() with base 10''"

definition literal_limit_error :: "nat \<Rightarrow> error" where
  "literal_limit_error n =
     ValueError (''Exceeds the limit (4300 digits) for integer string conversion: value has ''
       @ str_int (int n) @ '' digits; use sys.set_int_max_str_digits() to increase the limit'')"

definition is_int_space :: "char \<Rightarrow> bool" where
  \<comment> \<open>the whitespace \<open>int\<close> accepts around a literal: TAB, LF, VT, FF, CR, SPACE, NEL, NBSP\<close>
  "is_int_space c =
     (let n = (of_char c :: int)
      in (9 \<le> n \<and> n \<le> 13) \<or> n = 32 \<or> n = 133 \<or> n = 160)"

definition is_literal_char :: "char \<Rightarrow> bool" where
  "is_literal_char c = (is_ascii_digit c \<or> c = CHR ''_'')"

fun double_underscore :: "string \<Rightarrow> bool" where
  "double_underscore (c # d # cs) =
     ((c = CHR ''_'' \<and> d = CHR ''_'') \<or> double_underscore (d # cs))"
| "double_underscore cs = False"

definition digits_value :: "string \<Rightarrow> int" where
  "digits_value ds = foldl (\<lambda>a c. 10 * a + digit_val c) 0 ds"

definition py_int :: "string \<Rightarrow> error + int" where
  \<comment> \<open>\<open>int(s)\<close> in base 10: whitespace around, a sign, then digits with single underscores
      between them; the limit on the digits is tested before what follows them\<close>
  "py_int s =
     (let t = rev (dropWhile is_int_space (rev (dropWhile is_int_space s)));
          neg = (t \<noteq> [] \<and> hd t = CHR ''-'');
          body = (if t \<noteq> [] \<and> (hd t = CHR ''-'' \<or> hd t = CHR ''+'') then tl t else t);
          run = takeWhile is_literal_char body;
          rest = dropWhile is_literal_char body;
          ds = filter is_ascii_digit run
      in if run = [] \<or> hd run = CHR ''_'' \<or> last run = CHR ''_'' \<or> double_underscore run
         then Inl invalid_literal
         else if int_max_str_digits < length ds then Inl (literal_limit_error (length ds))
         else if rest \<noteq> [] then Inl invalid_literal
         else Inr (if neg then - digits_value ds else digits_value ds))"

section \<open>Record validation\<close>

text \<open>
  The validators are regular expressions. Every repetition in them is over a character
  class, so the expressions are modelled by a datatype with classes, sequence,
  alternative, the greedy optional and the greedy bounded repetition of a class.
  \<open>rmatch r s\<close> lists, in the order a backtracking matcher tries them, what remains of
  \<open>s\<close> after each way of matching \<open>r\<close> at its start.
\<close>

datatype regex =
    Cls "char \<Rightarrow> bool"
  | Seq regex regex
  | Alt regex regex
  | Opt regex
  | Rep "char \<Rightarrow> bool" nat "nat option"

fun rmatch :: "regex \<Rightarrow> string \<Rightarrow> string list" where
  "rmatch (Cls P) s = (case s of [] \<Rightarrow> [] | c # cs \<Rightarrow> if P c then [cs] else [])"
| "rmatch (Seq r1 r2) s = concat (map (rmatch r2) (rmatch r1 s))"
| "rmatch (Alt r1 r2) s = rmatch r1 s @ rmatch r2 s"
| "rmatch (Opt r) s = rmatch r s @ [s]"
| "rmatch (Rep P m n) s =
     (let k = length (takeWhile P s);
          hi = (case n of None \<Rightarrow> k | Some b \<Rightarrow> min b k)
      in map (\<lambda>i. drop i s) (rev [m ..< Suc hi]))"

definition at_dollar :: "string \<Rightarrow> bool" where
  \<comment> \<open>\<open>$\<close> matches at the end of the string and just before a newline that ends it\<close>
  "at_dollar rest = (rest = [] \<or> rest = ''\<newline>'')"

definition re_match :: "regex \<Rightarrow> string \<Rightarrow> bool" where
  \<comment> \<open>\<open>re.compile("^" r "$").match(s)\<close> finds a match\<close>
  "re_match r s = list_ex at_dollar (rmatch r s)"

definition Lit :: "char \<Rightarrow> regex" where
  "Lit c = Cls (\<lambda>x. x = c)"

definition in_range :: "char \<Rightarrow> char \<Rightarrow> char \<Rightarrow> bool" where
  "in_range lo hi c = (lo \<le> c \<and> c \<le> hi)"

definition octet_re :: regex where
  \<comment> \<open>\<open>(25[0-5]|2[0-4]\d|[01]?\d\d?)\<close>\<close>
  "octet_re =
     Alt (Seq (Lit CHR ''2'') (Seq (Lit CHR ''5'') (Cls (in_range CHR ''0'' CHR ''5''))))
    (Alt (Seq (Lit CHR ''2'') (Seq (Cls (in_range CHR ''0'' CHR ''4'')) (Cls is_ascii_digit)))
         (Seq (Opt (Cls (in_range CHR ''0'' CHR ''1'')))
              (Seq (Cls is_ascii_digit) (Opt (Cls is_ascii_digit)))))"

definition ipv4_re :: regex where
  "ipv4_re =
     Seq octet_re (Seq (Lit CHR ''.'') (Seq octet_re (Seq (Lit CHR ''.'')
       (Seq octet_re (Seq (Lit CHR ''.'') octet_re)))))"

definition is_hex_colon :: "char \<Rightarrow> bool" where
  \<comment> \<open>\<open>[0-9a-fA-F:]\<close>\<close>
  "is_hex_colon c =
     (is_ascii_digit c \<or> in_range CHR ''a'' CHR ''f'' c \<or> in_range CHR ''A'' CHR ''F'' c
      \<or> c = CHR '':'')"

definition ipv6_re :: regex where
  \<comment> \<open>\<open>[0-9a-fA-F:]{2,39}\<close>\<close>
  "ipv6_re = Rep is_hex_colon 2 (Some 39)"

definition is_host_char :: "char \<Rightarrow> bool" where
  \<comment> \<open>\<open>[a-zA-Z0-9._-]\<close>\<close>
  "is_host_char c =
     (in_range CHR ''a'' CHR ''z'' c \<or> in_range CHR ''A'' CHR ''Z'' c \<or> is_ascii_digit c
      \<or> c = CHR ''.'' \<or> c = CHR ''_'' \<or> c = CHR ''-'')"

definition host_re :: regex where
  \<comment> \<open>\<open>[a-zA-Z0-9._-]+\.?\<close>\<close>
  "host_re = Seq (Rep is_host_char 1 None) (Opt (Lit CHR ''.''))"

definition VALID_TYPES :: "string list" where
  "VALID_TYPES =
     [''A'', ''AAAA'', ''CNAME'', ''MX'', ''TXT'', ''NS'', ''SOA'', ''SRV'', ''PTR'', ''CAA'']"

definition VALIDATORS :: "(string \<times> regex) list" where
  "VALIDATORS =
     [(''A'', ipv4_re), (''AAAA'', ipv6_re), (''CNAME'', host_re), (''MX'', host_re),
      (''NS'', host_re), (''PTR'', host_re)]"

text \<open>
  \<open>validate_record\<close> collects its messages in a list. The message for a negative TTL
  shows the TTL in decimal, as \<open>str_int\<close> gives it; the interpreter's limit on that
  conversion, which a negative TTL of more than 4300 digits meets, is not part of this
  definition.
\<close>

definition validate_record :: "DnsRecord \<Rightarrow> string list" where
  "validate_record r =
     (if record_type r \<notin> set VALID_TYPES
      then [''Unknown record type: '' @ record_type r] else [])
   @ (if name r = [] then [''Record name cannot be empty''] else [])
   @ (if rvalue r = [] then [''Record value cannot be empty''] else [])
   @ (if ttl r < 0 then [''TTL must be non-negative, got '' @ str_int (ttl r)] else [])
   @ (case map_of VALIDATORS (record_type r) of
        None \<Rightarrow> []
      | Some validator \<Rightarrow>
          if \<not> re_match validator (rvalue r)
          then [''Value '' @ [CHR 0x27] @ rvalue r @ [CHR 0x27] @ '' invalid for type ''
                  @ record_type r]
          else [])
   @ (if record_type r \<in> {''MX'', ''SRV''} \<and> priority r = None
      then [record_type r @ '' record requires a priority''] else [])"

section \<open>Adding a record\<close>

text \<open>
  The persistence gateway is an SQLite connection. Of the database the model keeps the
  rows of the table \<open>records\<close> and the last row id the table has given out
  (\<open>AUTOINCREMENT\<close>). Binding an integer outside the signed 64-bit range to a statement
  raises \<open>OverflowError\<close>.
\<close>

record record_row =
  row_id :: int
  row_zone_id :: int
  row_record_type :: string
  row_name :: string
  row_value :: string
  row_ttl :: int
  row_priority :: "int option"

record db =
  records_tbl :: "record_row list"
  last_record_id :: int

definition fits_int64 :: "int \<Rightarrow> bool" where
  "fits_int64 i = (- (2 ^ 63) \<le> i \<and> i < 2 ^ 63)"

definition truthy :: "int option \<Rightarrow> bool" where
  \<comment> \<open>the truth value of an \<open>Optional[int]\<close>\<close>
  "truthy x = (case x of None \<Rightarrow> False | Some i \<Rightarrow> i \<noteq> 0)"

text \<open>
  \<open>add_record\<close> mutates the zone and the database and may raise. The model returns the
  outcome (the error raised or the record returned) together with the zone and the
  connection as they are afterwards. The record appended to \<open>zone.records\<close> is the
  object the function returns, so the id the insertion gives it shows in the zone too.
\<close>

definition add_record ::
  "Zone \<Rightarrow> string \<Rightarrow> string \<Rightarrow> string \<Rightarrow> int \<Rightarrow> int option \<Rightarrow> db option
     \<Rightarrow> (error + DnsRecord) \<times> Zone \<times> db option" where
  "add_record z rtype nm val t prio conn =
     (let rec = \<lparr>record_type = str_upper rtype, name = nm, rvalue = val, ttl = t,
                 priority = prio, record_id = None\<rparr>;
          errs = validate_record rec
      in if errs \<noteq> []
         then (Inl (ValueError (''Invalid record: '' @ py_join ''; '' errs)), z, conn)
         else
           (let z1 = z\<lparr>records := records z @ [rec]\<rparr>
            in case conn of
                 None \<Rightarrow> (Inr rec, z1, conn)
               | Some d \<Rightarrow>
                   if truthy (zone_id z)
                   then
                     (if fits_int64 (the (zone_id z)) \<and> fits_int64 t
                         \<and> (case prio of None \<Rightarrow> True | Some p \<Rightarrow> fits_int64 p)
                      then
                        (let rid = last_record_id d + 1;
                             row = \<lparr>row_id = rid, row_zone_id = the (zone_id z),
                                    row_record_type = record_type rec, row_name = name rec,
                                    row_value = rvalue rec, row_ttl = ttl rec,
                                    row_priority = priority rec\<rparr>;
                             rec1 = rec\<lparr>record_id := Some rid\<rparr>
                         in (Inr rec1,
                             z\<lparr>records := records z @ [rec1]\<rparr>,
                             Some (d\<lparr>records_tbl := records_tbl d @ [row],
                                     last_record_id := rid\<rparr>)))
                      else (Inl OverflowError, z1, conn))
                   else (Inr rec, z1, conn)))"

section \<open>Provider sync\<close>

record change =
  ch_type :: string
  ch_name :: string
  ch_value :: string
  ch_ttl :: int

text \<open>
  The summary is a dictionary with fixed keys. The key \<open>total_changes\<close> is set only at
  the end of the function, so its field is optional: \<open>None\<close> is a summary without it.
\<close>

record summary =
  provider :: string
  zone :: string
  dry_run :: bool
  records_to_create :: "change list"
  records_to_update :: "change list"
  records_to_delete :: "change list"
  errors :: "string list"
  total_changes :: "int option"

text \<open>
  A Python dictionary keeps its keys in the order of their first insertion; storing under
  a key it has replaces the value and leaves the key where it is.
\<close>

fun dict_set :: "'k \<Rightarrow> 'v \<Rightarrow> ('k \<times> 'v) list \<Rightarrow> ('k \<times> 'v) list" where
  "dict_set k v [] = [(k, v)]"
| "dict_set k v ((k', v') # d) =
     (if k = k' then (k, v) # d else (k', v') # dict_set k v d)"

definition stub_key :: "DnsRecord \<Rightarrow> string" where
  "stub_key r = record_type r @ '':'' @ name r"

definition is_address_type :: "DnsRecord \<Rightarrow> bool" where
  "is_address_type r = (record_type r \<in> {''A'', ''AAAA'', ''CNAME''})"

definition existing_stub :: "Zone \<Rightarrow> (string \<times> DnsRecord) list" where
  "existing_stub z =
     foldl (\<lambda>d r. dict_set (stub_key r) r d) [] (filter is_address_type (records z))"

definition to_create :: "DnsRecord \<Rightarrow> change" where
  "to_create r = \<lparr>ch_type = record_type r, ch_name = name r, ch_value = rvalue r, ch_ttl = ttl r\<rparr>"

definition sync_with_provider :: "Zone \<Rightarrow> string \<Rightarrow> bool \<Rightarrow> summary" where
  "sync_with_provider z prov dry =
     (let s = \<lparr>provider = prov, zone = zone_name z, dry_run = dry, records_to_create = [],
                records_to_update = [], records_to_delete = [], errors = [],
                total_changes = None\<rparr>
      in if prov \<notin> {''cloudflare'', ''route53'', ''digitalocean''}
         then s\<lparr>errors := errors s @ [''Unsupported provider: '' @ prov]\<rparr>
         else
           (let s1 = s\<lparr>records_to_create :=
                          records_to_create s @ map (\<lambda>(key, rec). to_create rec) (existing_stub z)\<rparr>
            in s1\<lparr>total_changes :=
                    Some (int (length (records_to_create s1))
                          + int (length (records_to_update s1))
                          + int (length (records_to_delete s1)))\<rparr>))"

section \<open>Zone file export\<close>

text \<open>
  The exporter collects its lines in a list and joins them. Every line is an f-string; the
  only step of the function that can raise is the formatting of an integer (the TTLs, the
  serial and the priorities), which the model does with \<open>format_int\<close>. The steps run in
  the order of the source and the first error ends the call.
\<close>

definition header_lines :: "Zone \<Rightarrow> error + string list" where
  "header_lines z =
     and_then (format_int (zone_ttl z)) (\<lambda>t.
       Inr [''; Zone file for '' @ zone_name z,
            ''; Generated by blackroad-zone-manager'',
            ''$ORIGIN '' @ zone_name z @ ''.'',
            ''$TTL '' @ t,
            []])"

definition soa_records :: "Zone \<Rightarrow> DnsRecord list" where
  "soa_records z = filter (\<lambda>r. record_type r = ''SOA'') (records z)"

definition soa_line :: "DnsRecord \<Rightarrow> error + string" where
  "soa_line r =
     and_then (format_int (ttl r)) (\<lambda>t. Inr (name r @ '' '' @ t @ '' IN SOA '' @ rvalue r))"

definition soa_lines :: "Zone \<Rightarrow> error + string list" where
  "soa_lines z =
     (if soa_records z = []
      then and_then (format_int (zone_ttl z)) (\<lambda>t.
           and_then (format_int (serial z)) (\<lambda>s.
             Inr [''@ '' @ t @ '' IN SOA ns1.'' @ zone_name z @ ''. hostmaster.''
                    @ zone_name z @ ''. '' @ ''( '' @ s @ '' 3600 900 604800 300 )'']))
      else map_result soa_line (soa_records z))"

definition ns_line :: "Zone \<Rightarrow> string \<Rightarrow> error + string" where
  "ns_line z ns =
     and_then (format_int (zone_ttl z)) (\<lambda>t. Inr (''@ '' @ t @ '' IN NS '' @ ns))"

definition sort_key_of :: "DnsRecord \<Rightarrow> string \<times> string" where
  "sort_key_of r = (record_type r, name r)"

definition other_records :: "Zone \<Rightarrow> DnsRecord list" where
  \<comment> \<open>\<open>list.sort\<close> is a stable sort by the key\<close>
  "other_records z =
     sort_key sort_key_of (filter (\<lambda>r. record_type r \<notin> {''SOA'', ''NS''}) (records z))"

definition record_line :: "DnsRecord \<Rightarrow> error + string" where
  "record_line r =
     (case priority r of
        Some p \<Rightarrow>
          and_then (format_int (ttl r)) (\<lambda>t.
          and_then (format_int p) (\<lambda>ps.
            Inr (name r @ '' '' @ t @ '' IN '' @ record_type r @ '' '' @ ps @ '' ''
                   @ rvalue r)))
      | None \<Rightarrow>
          and_then (format_int (ttl r)) (\<lambda>t.
            Inr (name r @ '' '' @ t @ '' IN '' @ record_type r @ '' '' @ rvalue r)))"

definition export_lines :: "Zone \<Rightarrow> error + string list" where
  "export_lines z =
     and_then (header_lines z) (\<lambda>hdr.
     and_then (soa_lines z) (\<lambda>soa.
     and_then (map_result (ns_line z) (nameservers z)) (\<lambda>ns.
     and_then (map_result record_line (other_records z)) (\<lambda>rest.
       Inr (hdr @ soa @ [[]] @ ns @ [[]] @ rest)))))"

definition export_bind_format :: "Zone \<Rightarrow> error + string" where
  "export_bind_format z =
     and_then (export_lines z) (\<lambda>lines. Inr (py_join ''\<newline>'' lines @ ''\<newline>''))"

section \<open>Zone file import\<close>

text \<open>
  The importer reads the file line by line (text mode: a line ends at LF, CR or CR LF, and
  the line handed to the loop ends with LF), keeps four variables while it goes, and may
  raise from a subscript or from \<open>int\<close>. The model threads the four variables through
  the lines and stops at the first error. It follows the call without a connection
  (\<open>conn=None\<close>); the file system is the argument \<open>file\<close>, the content of the file at
  the path or \<open>None\<close> when nothing is there, \<open>stem\<close> is the path's base name without
  its extension, and \<open>today\<close> is the serial the \<open>Zone\<close> constructor takes from the clock.
\<close>

definition item :: "'a list \<Rightarrow> nat \<Rightarrow> error + 'a" where
  \<comment> \<open>\<open>xs[i]\<close> for an index that is not negative\<close>
  "item xs i = (if i < length xs then Inr (xs ! i) else Inl IndexError)"

record parse_state =
  p_zone_name :: "string option"
  p_default_ttl :: int
  p_records :: "DnsRecord list"
  p_origin :: "string option"

definition parse_record_line :: "int \<Rightarrow> string list \<Rightarrow> error + DnsRecord option" where
  \<comment> \<open>a line of at least four tokens; \<open>None\<close> is an SOA line, which adds no record\<close>
  "parse_record_line default_ttl parts =
     and_then (item parts 0) (\<lambda>nm.
     and_then (item parts 1) (\<lambda>p1.
     and_then (if py_isdigit p1 then and_then (py_int p1) (\<lambda>t. Inr (t, 2::nat))
               else Inr (default_ttl, 1)) (\<lambda>(t, idx1).
     and_then (item parts idx1) (\<lambda>p2.
     let idx2 = (if str_upper p2 = ''IN'' then idx1 + 1 else idx1) in
     and_then (item parts idx2) (\<lambda>p3.
     let rtype = str_upper p3;
         idx3 = idx2 + 1;
         val = py_join '' '' (drop idx3 parts) in
     and_then (if rtype \<in> {''MX'', ''SRV''}
               then and_then (item (py_split val) 0) (\<lambda>v0.
                      if py_isdigit v0
                      then and_then (py_int v0) (\<lambda>p.
                             Inr (Some p, py_join '' '' (drop 1 (py_split val))))
                      else Inr (None, val))
               else Inr (None, val)) (\<lambda>(prio, val1).
     Inr (if rtype \<noteq> ''SOA''
          then Some \<lparr>record_type = rtype, name = nm, rvalue = val1, ttl = t,
                      priority = prio, record_id = None\<rparr>
          else None)))))))"

definition import_line :: "parse_state \<Rightarrow> string \<Rightarrow> error + parse_state" where
  "import_line st raw_line =
     (let line = py_strip raw_line
      in if line = [] \<or> startswith line '';'' then Inr st
         else if startswith line ''$ORIGIN''
         then and_then (item (py_split line) 1) (\<lambda>tok.
                let origin = rstrip_dot tok
                in Inr (st\<lparr>p_origin := Some origin,
                           p_zone_name :=
                             (if p_zone_name st = None \<or> p_zone_name st = Some []
                              then Some origin else p_zone_name st)\<rparr>))
         else if startswith line ''$TTL''
         then and_then (item (py_split line) 1) (\<lambda>tok.
              and_then (py_int tok) (\<lambda>t. Inr (st\<lparr>p_default_ttl := t\<rparr>)))
         else
           (let parts = py_split line
            in if length parts < 4 then Inr st
               else and_then (parse_record_line (p_default_ttl st) parts) (\<lambda>rec.
                      Inr (case rec of
                             None \<Rightarrow> st
                           | Some r \<Rightarrow> st\<lparr>p_records := p_records st @ [r]\<rparr>))))"

fun import_lines :: "parse_state \<Rightarrow> string list \<Rightarrow> error + parse_state" where
  "import_lines st [] = Inr st"
| "import_lines st (l # ls) = and_then (import_line st l) (\<lambda>st1. import_lines st1 ls)"

definition after_cr :: "string \<Rightarrow> string" where
  \<comment> \<open>a LF right after a CR belongs to the same line end\<close>
  "after_cr cs = (case cs of [] \<Rightarrow> [] | d # ds \<Rightarrow> if d = CHR 0x0A then ds else cs)"

function file_lines_aux :: "string \<Rightarrow> string \<Rightarrow> string list" where
  "file_lines_aux cur [] = (if cur = [] then [] else [cur])"
| "file_lines_aux cur (c # cs) =
     (if c = CHR 0x0A then (cur @ ''\<newline>'') # file_lines_aux [] cs
      else if c = CHR 0x0D then (cur @ ''\<newline>'') # file_lines_aux [] (after_cr cs)
      else file_lines_aux (cur @ [c]) cs)"
  by pat_completeness auto
termination
  by (relation "measure (\<lambda>(cur, s). length s)") (auto simp: after_cr_def split: list.splits)

definition file_lines :: "string \<Rightarrow> string list" where
  "file_lines text = file_lines_aux [] text"

definition initial_state :: parse_state where
  "initial_state = \<lparr>p_zone_name = None, p_default_ttl = 3600, p_records = [], p_origin = None\<rparr>"

definition import_zone_file :: "string option \<Rightarrow> string \<Rightarrow> string \<Rightarrow> int \<Rightarrow> error + Zone" where
  "import_zone_file file path stem today =
     (case file of
        None \<Rightarrow> Inl (FileNotFoundError (''Zone file not found: '' @ path))
      | Some text \<Rightarrow>
          and_then (import_lines initial_state (file_lines text)) (\<lambda>st.
            Inr \<lparr>zone_name = (case p_zone_name st of None \<Rightarrow> stem | Some n \<Rightarrow> n),
                 zone_ttl = p_default_ttl st, serial = today,
                 nameservers = default_nameservers, records = p_records st,
                 zone_id = None\<rparr>))"

section \<open>Example values\<close>

definition example_db :: db where
  "example_db = \<lparr>records_tbl = [], last_record_id = 0\<rparr>"

definition example_zone :: Zone where
  "example_zone =
     \<lparr>zone_name = ''test.example.com'', zone_ttl = 3600, serial = 2024060701,
      nameservers = default_nameservers, records = [], zone_id = Some 1\<rparr>"

definition sample_zone :: Zone where
  "sample_zone =
     \<lparr>zone_name = ''example.com'', zone_ttl = 3600, serial = 2024060701,
      nameservers = default_nameservers,
      records =
        [\<lparr>record_type = ''MX'', name = ''@'', rvalue = ''mail.example.com.'', ttl = 300,
          priority = Some 10, record_id = Some 1\<rparr>,
         \<lparr>record_type = ''A'', name = ''www'', rvalue = ''10.0.0.1'', ttl = 300,
          priority = None, record_id = Some 2\<rparr>,
         \<lparr>record_type = ''NS'', name = ''@'', rvalue = ''ns1.example.com.'', ttl = 300,
          priority = None, record_id = Some 3\<rparr>,
         \<lparr>record_type = ''A'', name = ''@'', rvalue = ''10.0.0.2'', ttl = 600,
          priority = None, record_id = Some 4\<rparr>],
      zone_id = Some 1\<rparr>"

definition round_robin_zone :: Zone where
  "round_robin_zone =
     \<lparr>zone_name = ''test.example.com'', zone_ttl = 3600, serial = 2024060701,
      nameservers = default_nameservers,
      records =
        [\<lparr>record_type = ''A'', name = ''www'', rvalue = ''10.0.0.1'', ttl = 300,
          priority = None, record_id = None\<rparr>,
         \<lparr>record_type = ''A'', name = ''www'', rvalue = ''10.0.0.2'', ttl = 300,
          priority = None, record_id = None\<rparr>],
      zone_id = None\<rparr>"

definition long_ttl :: int where
  \<comment> \<open>the least integer of 4301 digits\<close>
  "long_ttl = 10 ^ 4300"

definition sample_zone_text :: string where
  \<comment> \<open>the zone file of \<open>sample_zone\<close>\<close>
  "sample_zone_text =
     ''; Zone file for example.com\<newline>''
     @ ''; Generated by blackroad-zone-manager\<newline>''
     @ ''$ORIGIN example.com.\<newline>''
     @ ''$TTL 3600\<newline>''
     @ ''\<newline>''
     @ ''@ 3600 IN SOA ns1.example.com. hostmaster.example.com. ''
     @ ''( 2024060701 3600 900 604800 300 )\<newline>''
     @ ''\<newline>''
     @ ''@ 3600 IN NS ns1.blackroad.io.\<newline>''
     @ ''@ 3600 IN NS ns2.blackroad.io.\<newline>''
     @ ''\<newline>''
     @ ''@ 600 IN A 10.0.0.2\<newline>''
     @ ''www 300 IN A 10.0.0.1\<newline>''
     @ ''@ 300 IN MX 10 mail.example.com.\<newline>''"



section \<open>Auxiliary notions\<close>

text \<open>A token is a non-empty string without whitespace.\<close>

definition no_space :: "string \<Rightarrow> bool" where
  "no_space s = list_all (\<lambda>c. \<not> is_space c) s"

definition is_token :: "string \<Rightarrow> bool" where
  "is_token t = (t \<noteq> [] \<and> no_space t)"

text \<open>
  The keys of the dictionary that \<open>sync_with_provider\<close> builds, in the order of their
  first insertion, and the dictionary built from a list of records.
\<close>

definition stub_of :: "DnsRecord list \<Rightarrow> (string \<times> DnsRecord) list" where
  "stub_of rs = foldl (\<lambda>d r. dict_set (stub_key r) r d) [] rs"

definition keys_in_order :: "DnsRecord list \<Rightarrow> string list" where
  "keys_in_order rs = rev (remdups (rev (map stub_key rs)))"

text \<open>The number of newline characters at the end of a text.\<close>

definition trailing_newlines :: "string \<Rightarrow> nat" where
  "trailing_newlines s = length (takeWhile (\<lambda>c. c = CHR 0x0A) (rev s))"

text \<open>
  An integer that the interpreter converts to text is one of at most 4300 decimal digits.
  The integers the exporter formats are the zone's TTL, the serial when the zone has no SOA
  record and the TTL of every SOA record otherwise, and the TTL and the priority of every
  record that is neither SOA nor NS.
\<close>

definition printable :: "int \<Rightarrow> bool" where
  "printable i = (abs i < 10 ^ 4300)"

definition record_printable :: "DnsRecord \<Rightarrow> bool" where
  "record_printable r =
     (printable (ttl r) \<and> (case priority r of None \<Rightarrow> True | Some p \<Rightarrow> printable p))"

definition exported_ints :: "Zone \<Rightarrow> int list" where
  "exported_ints z =
     zone_ttl z
     # (if filter (\<lambda>r. record_type r = ''SOA'') (records z) = [] then [serial z]
        else map ttl (filter (\<lambda>r. record_type r = ''SOA'') (records z)))
     @ concat (map (\<lambda>r. ttl r # (case priority r of None \<Rightarrow> [] | Some p \<Rightarrow> [p]))
         (filter (\<lambda>r. record_type r \<notin> {''SOA'', ''NS''}) (records z)))"

section \<open>The zone file in the words of the specification\<close>

text \<open>
  The specification gives the text of the exporter line by line: two comment lines, the
  \<open>$ORIGIN\<close> and \<open>$TTL\<close> directives, a blank line, the SOA line or lines (one synthesized
  from the serial when the zone has no SOA record), a blank line, one NS line per entry of
  the zone's nameservers, a blank line, and then one line
  \<open><name> <ttl> IN <type> [<priority> ]<value>\<close> per remaining record. These definitions
  follow those words, with every integer in decimal.
\<close>

definition head_lines :: "Zone \<Rightarrow> string list" where
  "head_lines z =
     [''; Zone file for '' @ zone_name z,
      ''; Generated by blackroad-zone-manager'',
      ''$ORIGIN '' @ zone_name z @ ''.'',
      ''$TTL '' @ str_int (zone_ttl z),
      '''']
     @ (if filter (\<lambda>r. record_type r = ''SOA'') (records z) = []
        then [''@ '' @ str_int (zone_ttl z) @ '' IN SOA ns1.'' @ zone_name z
                @ ''. hostmaster.'' @ zone_name z @ ''. ( '' @ str_int (serial z)
                @ '' 3600 900 604800 300 )'']
        else map (\<lambda>r. name r @ '' '' @ str_int (ttl r) @ '' IN SOA '' @ rvalue r)
               (filter (\<lambda>r. record_type r = ''SOA'') (records z)))
     @ ['''']
     @ map (\<lambda>ns. ''@ '' @ str_int (zone_ttl z) @ '' IN NS '' @ ns) (nameservers z)
     @ ['''']"

definition record_text :: "DnsRecord \<Rightarrow> string" where
  "record_text r =
     name r @ '' '' @ str_int (ttl r) @ '' IN '' @ record_type r @ '' ''
     @ (case priority r of None \<Rightarrow> [] | Some p \<Rightarrow> str_int p @ '' '') @ rvalue r"

definition zone_text :: "Zone \<Rightarrow> DnsRecord list \<Rightarrow> string" where
  \<comment> \<open>the zone file with the remaining records in a given order\<close>
  "zone_text z rs = py_join ''\<newline>'' (head_lines z @ map record_text rs) @ ''\<newline>''"

section \<open>The record rules in the words of the specification\<close>

text \<open>
  The specification describes the value syntax of a record in words: an A value is a
  dotted quad with each octet between 0 and 255, an AAAA value is a string of hexadecimal
  digits and colons of length 2 to 39, a CNAME, MX, NS or PTR value is a non-empty token of
  letters, digits, dots, hyphens and underscores (the optional dot at its end is a
  character of the same class), and any other type takes any value. These definitions
  follow those words and are compared with the regular expressions of the source.
\<close>

definition dec_value :: "string \<Rightarrow> int" where
  "dec_value s = foldl (\<lambda>a c. 10 * a + digit_val c) 0 s"

fun split_on :: "char \<Rightarrow> string \<Rightarrow> string list" where
  \<comment> \<open>the parts of a string between the occurrences of a separator\<close>
  "split_on sep [] = [[]]"
| "split_on sep (c # cs) =
     (if c = sep then [] # split_on sep cs
      else (case split_on sep cs of p # ps \<Rightarrow> (c # p) # ps | [] \<Rightarrow> [[c]]))"

definition is_octet :: "string \<Rightarrow> bool" where
  "is_octet s =
     (1 \<le> length s \<and> length s \<le> 3 \<and> list_all is_ascii_digit s \<and> dec_value s \<le> 255)"

definition dotted_quad :: "string \<Rightarrow> bool" where
  "dotted_quad s =
     (length (split_on CHR ''.'' s) = 4 \<and> list_all is_octet (split_on CHR ''.'' s))"

definition hex_and_colon :: "string \<Rightarrow> bool" where
  "hex_and_colon s = (2 \<le> length s \<and> length s \<le> 39 \<and> list_all is_hex_colon s)"

definition hostname_like :: "string \<Rightarrow> bool" where
  "hostname_like s = (s \<noteq> [] \<and> list_all is_host_char s)"

definition value_syntax_ok :: "string \<Rightarrow> string \<Rightarrow> bool" where
  "value_syntax_ok t v =
     (if t = ''A'' then dotted_quad v
      else if t = ''AAAA'' then hex_and_colon v
      else if t \<in> {''CNAME'', ''MX'', ''NS'', ''PTR''} then hostname_like v
      else True)"

definition record_ok :: "DnsRecord \<Rightarrow> bool" where
  "record_ok r =
     (record_type r \<in> set VALID_TYPES \<and> name r \<noteq> [] \<and> rvalue r \<noteq> [] \<and> 0 \<le> ttl r
      \<and> value_syntax_ok (record_type r) (rvalue r)
      \<and> (if record_type r \<in> {''MX'', ''SRV''} then priority r \<noteq> None else True))"

definition newline_record :: DnsRecord where
  "newline_record =
     \<lparr>record_type = ''A'', name = ''www'', rvalue = ''1.2.3.4\<newline>'', ttl = 300,
      priority = None, record_id = None\<rparr>"

section \<open>Properties of \<open>add_record\<close>\<close>

lemma upper_char_idem: "upper_char (upper_char c) = upper_char c"
proof (cases "CHR ''a'' \<le> c \<and> c \<le> CHR ''z''")
  case True
  then have r: "97 \<le> (of_char c :: nat)" "(of_char c :: nat) \<le> 122"
    by (simp_all add: less_eq_char_def)
  have "(of_char c :: int) = int (of_char c)"
    by (simp add: of_char_def)
  with r have "(of_char c :: int) - 32 = int (of_char c - 32)"
    by simp
  then have "char_of ((of_char c :: int) - 32) = char_of ((of_char c :: nat) - 32)"
    by (simp only: char_of_nat)
  then have "(of_char (char_of (of_char c - (32::int))) :: nat) = of_char c - 32"
    using r by simp
  with r have "\<not> (CHR ''a'' \<le> char_of (of_char c - (32::int)))"
    by (simp add: less_eq_char_def)
  with True show ?thesis by (simp add: upper_char_def)
next
  case False
  then have "upper_char c = c" by (auto simp: upper_char_def)
  then show ?thesis by simp
qed

lemma str_upper_idem: "str_upper (str_upper s) = str_upper s"
  by (simp add: str_upper_def upper_char_idem)

lemma valid_types_upper: "t \<in> set VALID_TYPES \<Longrightarrow> str_upper t = t"
  by (auto simp: VALID_TYPES_def str_upper_def upper_char_def less_eq_char_def)

lemma validate_record_priority:
  "record_type r \<in> {''MX'', ''SRV''} \<Longrightarrow> priority r = None \<Longrightarrow> validate_record r \<noteq> []"
  by (simp add: validate_record_def)

lemma validate_record_unknown:
  "record_type r \<notin> set VALID_TYPES \<Longrightarrow>
     (''Unknown record type: '' @ record_type r) \<in> set (validate_record r)"
  by (simp add: validate_record_def)

text \<open>
  Claim C8. \<open>add_record\<close> called with a type that is MX or SRV (after the upper-casing
  the function does) and no priority raises \<open>ValueError\<close>, and it does so before it
  changes anything: the zone, with its record list, and the database behind the
  connection, with its stored rows, are what they were before the call.
\<close>

theorem add_record_requires_priority:
  assumes "str_upper rtype \<in> {''MX'', ''SRV''}"
  shows "\<exists>msg. add_record z rtype nm val t None conn = (Inl (ValueError msg), z, conn)"
proof -
  let ?rec = "\<lparr>record_type = str_upper rtype, name = nm, rvalue = val, ttl = t,
                 priority = None, record_id = None\<rparr>"
  have "validate_record ?rec \<noteq> []"
    using assms by (intro validate_record_priority) simp_all
  then show ?thesis
    by (simp add: add_record_def Let_def)
qed

theorem add_record_requires_priority_witness:
  "str_upper ''MX'' \<in> {''MX'', ''SRV''} \<and>
   (\<exists>msg. add_record example_zone ''MX'' ''@'' ''mail.example.com'' 300 None (Some example_db)
      = (Inl (ValueError msg), example_zone, Some example_db))"
proof -
  have h: "str_upper ''MX'' \<in> {''MX'', ''SRV''}" by code_simp
  show ?thesis
    using h add_record_requires_priority [OF h] by blast
qed

text \<open>
  Claim C9. \<open>add_record\<close> upper-cases its \<open>record_type\<close> argument before it builds and
  validates the record. For a spelling of a recognized type that is not already in upper
  case, the call behaves exactly as the call with the upper-case spelling, a record it
  returns carries the upper-case type and is the one appended to the zone, while
  \<open>validate_record\<close> on a record that carries the spelling as given reports an unknown
  type.
\<close>

theorem add_record_uppercases:
  assumes "str_upper rtype \<in> set VALID_TYPES" and "rtype \<noteq> str_upper rtype"
  shows "add_record z rtype nm val t prio conn = add_record z (str_upper rtype) nm val t prio conn
     \<and> (\<forall>rec z1 c1. add_record z rtype nm val t prio conn = (Inr rec, z1, c1) \<longrightarrow>
            record_type rec = str_upper rtype \<and> records z1 = records z @ [rec])
     \<and> (''Unknown record type: '' @ rtype) \<in> set (validate_record
            \<lparr>record_type = rtype, name = nm, rvalue = val, ttl = t, priority = prio,
             record_id = None\<rparr>)"
proof (intro conjI allI impI)
  show "add_record z rtype nm val t prio conn = add_record z (str_upper rtype) nm val t prio conn"
    by (simp add: add_record_def str_upper_idem)
next
  fix rec z1 c1
  assume "add_record z rtype nm val t prio conn = (Inr rec, z1, c1)"
  then show "record_type rec = str_upper rtype"
    by (auto simp: add_record_def Let_def split: if_splits option.splits)
next
  fix rec z1 c1
  assume "add_record z rtype nm val t prio conn = (Inr rec, z1, c1)"
  then show "records z1 = records z @ [rec]"
    by (auto simp: add_record_def Let_def split: if_splits option.splits)
next
  have "rtype \<notin> set VALID_TYPES"
    using assms(2) valid_types_upper by fastforce
  then show "(''Unknown record type: '' @ rtype) \<in> set (validate_record
            \<lparr>record_type = rtype, name = nm, rvalue = val, ttl = t, priority = prio,
             record_id = None\<rparr>)"
    using validate_record_unknown [of "\<lparr>record_type = rtype, name = nm, rvalue = val,
             ttl = t, priority = prio, record_id = None\<rparr>"] by simp
qed

lemma add_record_mx_example:
  "add_record example_zone ''MX'' ''@'' ''mail.example.com'' 300 (Some 10) None
     = (Inr \<lparr>record_type = ''MX'', name = ''@'', rvalue = ''mail.example.com'', ttl = 300,
              priority = Some 10, record_id = None\<rparr>,
        example_zone\<lparr>records := [\<lparr>record_type = ''MX'', name = ''@'',
              rvalue = ''mail.example.com'', ttl = 300, priority = Some 10,
              record_id = None\<rparr>]\<rparr>,
        None)"
  by code_simp

theorem add_record_uppercases_witness:
  "str_upper ''mx'' \<in> set VALID_TYPES \<and> ''mx'' \<noteq> str_upper ''mx''
   \<and> add_record example_zone ''mx'' ''@'' ''mail.example.com'' 300 (Some 10) None
       = (Inr \<lparr>record_type = ''MX'', name = ''@'', rvalue = ''mail.example.com'', ttl = 300,
                priority = Some 10, record_id = None\<rparr>,
          example_zone\<lparr>records := [\<lparr>record_type = ''MX'', name = ''@'',
                rvalue = ''mail.example.com'', ttl = 300, priority = Some 10,
                record_id = None\<rparr>]\<rparr>,
          None)
   \<and> ''Unknown record type: mx'' \<in> set (validate_record
            \<lparr>record_type = ''mx'', name = ''@'', rvalue = ''mail.example.com'', ttl = 300,
             priority = Some 10, record_id = None\<rparr>)"
proof -
  have h1: "str_upper ''mx'' \<in> set VALID_TYPES" by code_simp
  have h2: "''mx'' \<noteq> str_upper ''mx''" by code_simp
  have up: "str_upper ''mx'' = ''MX''" by code_simp
  note t = add_record_uppercases [OF h1 h2, of example_zone "''@''" "''mail.example.com''"
      300 "Some 10" None]
  show ?thesis
    using h1 h2 t add_record_mx_example unfolding up by simp
qed

section \<open>Properties of \<open>sync_with_provider\<close>\<close>

text \<open>
  Claim C3. For a provider outside the allow-list the function returns at once: the
  summary holds exactly one "Unsupported provider" message and three empty change lists.
  The key \<open>total_changes\<close> is not in that summary: it is set only at the end of the
  function, which the early return does not reach.
\<close>

theorem sync_unsupported_provider:
  assumes "prov \<notin> {''cloudflare'', ''route53'', ''digitalocean''}"
  shows "sync_with_provider z prov dry =
     \<lparr>provider = prov, zone = zone_name z, dry_run = dry, records_to_create = [],
      records_to_update = [], records_to_delete = [],
      errors = [''Unsupported provider: '' @ prov], total_changes = None\<rparr>"
  using assms by (simp add: sync_with_provider_def)

theorem sync_unsupported_provider_witness:
  "''unknown-host'' \<notin> {''cloudflare'', ''route53'', ''digitalocean''} \<and>
   sync_with_provider example_zone ''unknown-host'' True =
     \<lparr>provider = ''unknown-host'', zone = ''test.example.com'', dry_run = True,
      records_to_create = [], records_to_update = [], records_to_delete = [],
      errors = [''Unsupported provider: unknown-host''], total_changes = None\<rparr>"
proof -
  have h: "''unknown-host'' \<notin> {''cloudflare'', ''route53'', ''digitalocean''}" by simp
  show ?thesis
    using h sync_unsupported_provider [OF h, of example_zone True]
    by (simp add: example_zone_def)
qed

lemma stub_key_inj:
  assumes "is_address_type r" "is_address_type r'"
  shows "stub_key r = stub_key r' \<longleftrightarrow> sort_key_of r = sort_key_of r'"
  using assms by (auto simp: is_address_type_def stub_key_def sort_key_of_def)

lemma dict_set_map:
  assumes "distinct ks"
  shows "dict_set k v (map (\<lambda>x. (x, f x)) ks) =
     (if k \<in> set ks then map (\<lambda>x. (x, (f(k := v)) x)) ks
      else map (\<lambda>x. (x, f x)) ks @ [(k, v)])"
  using assms by (induction ks) auto

lemma stub_of_snoc: "stub_of (rs @ [r]) = dict_set (stub_key r) r (stub_of rs)"
  by (simp add: stub_of_def)

lemma stub_of_eq:
  "stub_of rs = map (\<lambda>k. (k, last (filter (\<lambda>r. stub_key r = k) rs))) (keys_in_order rs)"
proof (induction rs rule: rev_induct)
  case Nil
  show ?case by (simp add: stub_of_def keys_in_order_def)
next
  case (snoc r rs)
  let ?f = "\<lambda>k. last (filter (\<lambda>r. stub_key r = k) rs)"
  let ?g = "\<lambda>k. last (filter (\<lambda>x. stub_key x = k) (rs @ [r]))"
  have d: "distinct (keys_in_order rs)" by (simp add: keys_in_order_def)
  have s: "set (keys_in_order rs) = stub_key ` set rs" by (simp add: keys_in_order_def)
  have g: "?g = ?f(stub_key r := r)" by (auto simp: fun_eq_iff)
  show ?case
  proof (cases "stub_key r \<in> stub_key ` set rs")
    case True
    then have k: "keys_in_order (rs @ [r]) = keys_in_order rs"
      by (simp add: keys_in_order_def)
    show ?thesis
      unfolding stub_of_snoc snoc.IH k g
      using True s by (simp add: dict_set_map [OF d])
  next
    case False
    then have k: "keys_in_order (rs @ [r]) = keys_in_order rs @ [stub_key r]"
      by (simp add: keys_in_order_def)
    have "?g k = ?f k" if "k \<in> stub_key ` set rs" for k
    proof -
      from that False have "stub_key r \<noteq> k" by auto
      then show ?thesis by simp
    qed
    then have "map (\<lambda>k. (k, ?g k)) (keys_in_order rs) = map (\<lambda>k. (k, ?f k)) (keys_in_order rs)"
      using s by (intro map_cong) auto
    then show ?thesis
      unfolding stub_of_snoc snoc.IH k
      using False s by (simp add: dict_set_map [OF d])
  qed
qed

lemma length_keys_in_order: "length (keys_in_order rs) = card (stub_key ` set rs)"
proof -
  have "distinct (keys_in_order rs)" by (simp add: keys_in_order_def)
  then have "length (keys_in_order rs) = card (set (keys_in_order rs))"
    by (simp add: distinct_card)
  then show ?thesis by (simp add: keys_in_order_def)
qed

lemma keys_in_order_distinct:
  "distinct (map stub_key rs) \<Longrightarrow> keys_in_order rs = map stub_key rs"
  by (simp add: keys_in_order_def distinct_remdups_id)

lemma last_filter_distinct:
  assumes "distinct (map f rs)" "r \<in> set rs"
  shows "last (filter (\<lambda>x. f x = f r) rs) = r"
proof -
  have "filter (\<lambda>x. f x = f r) rs = [r]"
    using assms
  proof (induction rs)
    case Nil
    then show ?case by simp
  next
    case (Cons a rs)
    show ?case
    proof (cases "a = r")
      case True
      with Cons.prems have "f r \<notin> f ` set rs" by simp
      then have "\<forall>x\<in>set rs. f x \<noteq> f r" by (metis image_eqI)
      then have "filter (\<lambda>x. f x = f r) rs = []" by (simp add: filter_empty_conv)
      with True show ?thesis by simp
    next
      case False
      with Cons.prems have "r \<in> set rs" "f a \<noteq> f r" by auto
      with Cons show ?thesis by simp
    qed
  qed
  then show ?thesis by simp
qed

text \<open>
  Claim C4, as amended. For a provider of the allow-list, the records the summary proposes
  to create are taken from a dictionary keyed by \<open>type:name\<close>: there is one entry per
  distinct key among the zone's A, AAAA and CNAME records, in the order in which the keys
  first occur, and the entry of a key is made from the last record that has the key.
  \<open>total_changes\<close> is the number of distinct keys. When no two such records share a
  key there is one entry per record, in the order of the records.
\<close>

theorem sync_creates_one_per_key:
  assumes "prov \<in> {''cloudflare'', ''route53'', ''digitalocean''}"
  shows "records_to_create (sync_with_provider z prov dry) =
           map (\<lambda>k. to_create (last (filter (\<lambda>r. stub_key r = k)
                                  (filter is_address_type (records z)))))
               (keys_in_order (filter is_address_type (records z)))
       \<and> total_changes (sync_with_provider z prov dry) =
           Some (int (card (stub_key ` set (filter is_address_type (records z)))))
       \<and> (distinct (map stub_key (filter is_address_type (records z))) \<longrightarrow>
            records_to_create (sync_with_provider z prov dry) =
              map to_create (filter is_address_type (records z)))"
proof -
  let ?rs = "filter is_address_type (records z)"
  let ?s = "sync_with_provider z prov dry"
  have st: "existing_stub z = stub_of ?rs"
    by (simp add: existing_stub_def stub_of_def)
  have c: "records_to_create ?s = map (\<lambda>(key, rec). to_create rec) (stub_of ?rs)"
    using assms by (auto simp: sync_with_provider_def Let_def st)
  have c1: "records_to_create ?s =
      map (\<lambda>k. to_create (last (filter (\<lambda>r. stub_key r = k) ?rs))) (keys_in_order ?rs)"
    unfolding c stub_of_eq by (simp add: comp_def)
  have t: "total_changes ?s = Some (int (length (records_to_create ?s)))"
    using assms by (auto simp: sync_with_provider_def Let_def)
  have t1: "total_changes ?s = Some (int (card (stub_key ` set ?rs)))"
    unfolding t c1 by (simp add: length_keys_in_order)
  have c2: "records_to_create ?s = map to_create ?rs" if d: "distinct (map stub_key ?rs)"
  proof -
    have "map (\<lambda>k. to_create (last (filter (\<lambda>r. stub_key r = k) ?rs))) (map stub_key ?rs)
        = map to_create ?rs"
      unfolding map_map comp_def
      by (rule map_cong [OF refl]) (simp only: last_filter_distinct [OF d])
    then show ?thesis
      unfolding c1 keys_in_order_distinct [OF d] .
  qed
  from c1 t1 c2 show ?thesis by blast
qed

lemma sample_zone_creates:
  "map to_create (filter is_address_type (records sample_zone)) =
     [\<lparr>ch_type = ''A'', ch_name = ''www'', ch_value = ''10.0.0.1'', ch_ttl = 300\<rparr>,
      \<lparr>ch_type = ''A'', ch_name = ''@'', ch_value = ''10.0.0.2'', ch_ttl = 600\<rparr>]"
  by code_simp

lemma sample_zone_distinct:
  "distinct (map stub_key (filter is_address_type (records sample_zone)))"
  by code_simp

lemma sample_zone_card:
  "card (stub_key ` set (filter is_address_type (records sample_zone))) = 2"
proof -
  have "card (set (map stub_key (filter is_address_type (records sample_zone)))) =
      length (map stub_key (filter is_address_type (records sample_zone)))"
    by (rule distinct_card [OF sample_zone_distinct])
  also have "\<dots> = length (map to_create (filter is_address_type (records sample_zone)))"
    by simp
  also have "\<dots> = 2"
    unfolding sample_zone_creates by simp
  finally show ?thesis by simp
qed

theorem sync_creates_one_per_key_witness:
  "''cloudflare'' \<in> {''cloudflare'', ''route53'', ''digitalocean''}
   \<and> distinct (map stub_key (filter is_address_type (records sample_zone)))
   \<and> records_to_create (sync_with_provider sample_zone ''cloudflare'' True) =
       [\<lparr>ch_type = ''A'', ch_name = ''www'', ch_value = ''10.0.0.1'', ch_ttl = 300\<rparr>,
        \<lparr>ch_type = ''A'', ch_name = ''@'', ch_value = ''10.0.0.2'', ch_ttl = 600\<rparr>]
   \<and> total_changes (sync_with_provider sample_zone ''cloudflare'' True) = Some 2"
proof -
  have h: "''cloudflare'' \<in> {''cloudflare'', ''route53'', ''digitalocean''}" by simp
  note t = sync_creates_one_per_key [OF h, of sample_zone True]
  from t sample_zone_distinct
  have "records_to_create (sync_with_provider sample_zone ''cloudflare'' True) =
      map to_create (filter is_address_type (records sample_zone))"
    by blast
  moreover from t have "total_changes (sync_with_provider sample_zone ''cloudflare'' True) =
      Some (int (card (stub_key ` set (filter is_address_type (records sample_zone)))))"
    by blast
  ultimately show ?thesis
    using h sample_zone_distinct unfolding sample_zone_creates sample_zone_card by simp
qed

text \<open>
  The claim as it was stated fails for two A records of the same name: the second replaces
  the first under the key \<open>A:www\<close>, and one entry is proposed for two records.
\<close>

theorem sync_one_entry_per_record_counterexample:
  "\<not> (length (records_to_create (sync_with_provider round_robin_zone ''cloudflare'' True)) =
        length (filter is_address_type (records round_robin_zone)))"
  by code_simp

section \<open>Properties of the exporter\<close>

lemma and_then_Inr [simp]: "and_then (Inr v) f = f v"
  by (simp add: and_then_def)

lemma and_then_Inl [simp]: "and_then (Inl e) f = Inl e"
  by (simp add: and_then_def)

lemma map_result_eq:
  assumes "\<And>x. x \<in> set xs \<Longrightarrow> f x = (if P x then Inr (g x) else Inl e)"
  shows "map_result f xs = (if list_all P xs then Inr (map g xs) else Inl e)"
  using assms by (induction xs) simp_all

lemma str_digits_nonempty [simp]: "str_digits n \<noteq> []"
  by (subst str_digits.simps) simp

lemma str_digits_length:
  "0 \<le> n \<Longrightarrow> 0 < k \<Longrightarrow> length (str_digits n) \<le> k \<longleftrightarrow> n < 10 ^ k"
proof (induction n arbitrary: k rule: str_digits.induct)
  case (1 n)
  show ?case
  proof (cases "n < 10")
    case True
    have "(10::int) ^ 1 \<le> 10 ^ k"
      using 1(3) by (intro power_increasing) simp_all
    with True have "n < 10 ^ k" by simp
    moreover from True have "length (str_digits n) = 1"
      by (simp add: str_digits.simps [of n])
    ultimately show ?thesis using 1(3) by simp
  next
    case False
    then have len: "length (str_digits n) = Suc (length (str_digits (n div 10)))"
      by (simp add: str_digits.simps [of n])
    show ?thesis
    proof (cases "k = 1")
      case True
      with False len show ?thesis by simp
    next
      case k: False
      with 1(3) obtain j where j: "k = Suc j" "0 < j"
        by (cases k) auto
      from 1(2) have "0 \<le> n div 10" by simp
      from 1(1) [OF False this j(2)]
      have "length (str_digits (n div 10)) \<le> j \<longleftrightarrow> n div 10 < 10 ^ j" .
      also have "\<dots> \<longleftrightarrow> n < 10 ^ j * 10"
      proof -
        have "n div 10 < m \<longleftrightarrow> n < m * 10" for m :: int
          by arith
        then show ?thesis .
      qed
      finally show ?thesis using len j by (simp add: mult.commute)
    qed
  qed
qed

lemma printable_digits: "printable i \<longleftrightarrow> length (str_digits (abs i)) \<le> 4300"
  unfolding printable_def by (rule str_digits_length [symmetric]) simp_all

lemma format_int_eq:
  "format_int i = (if printable i then Inr (str_int i) else Inl digit_limit_error)"
  by (simp add: format_int_def int_max_str_digits_def printable_digits not_less)

lemma list_all_mset: "mset xs = mset ys \<Longrightarrow> list_all P xs = list_all P ys"
  by (metis list_all_iff set_mset_mset)

lemma header_lines_eq:
  "header_lines z =
     (if printable (zone_ttl z)
      then Inr [''; Zone file for '' @ zone_name z,
                ''; Generated by blackroad-zone-manager'',
                ''$ORIGIN '' @ zone_name z @ ''.'',
                ''$TTL '' @ str_int (zone_ttl z),
                '''']
      else Inl digit_limit_error)"
  by (simp add: header_lines_def format_int_eq)

lemma soa_lines_eq:
  "soa_lines z =
     (if (if soa_records z = [] then printable (zone_ttl z) \<and> printable (serial z)
          else list_all (\<lambda>r. printable (ttl r)) (soa_records z))
      then Inr (if soa_records z = []
                then [''@ '' @ str_int (zone_ttl z) @ '' IN SOA ns1.'' @ zone_name z
                        @ ''. hostmaster.'' @ zone_name z @ ''. ( '' @ str_int (serial z)
                        @ '' 3600 900 604800 300 )'']
                else map (\<lambda>r. name r @ '' '' @ str_int (ttl r) @ '' IN SOA '' @ rvalue r)
                       (soa_records z))
      else Inl digit_limit_error)"
proof (cases "soa_records z = []")
  case True
  then show ?thesis by (simp add: soa_lines_def format_int_eq)
next
  case False
  have "map_result soa_line (soa_records z) =
      (if list_all (\<lambda>r. printable (ttl r)) (soa_records z)
       then Inr (map (\<lambda>r. name r @ '' '' @ str_int (ttl r) @ '' IN SOA '' @ rvalue r)
                   (soa_records z))
       else Inl digit_limit_error)"
    by (rule map_result_eq) (simp add: soa_line_def format_int_eq)
  with False show ?thesis by (simp add: soa_lines_def)
qed

lemma ns_lines_eq:
  "printable (zone_ttl z) \<Longrightarrow>
     map_result (ns_line z) nss =
       Inr (map (\<lambda>ns. ''@ '' @ str_int (zone_ttl z) @ '' IN NS '' @ ns) nss)"
  by (induction nss) (simp_all add: ns_line_def format_int_eq)

lemma record_line_eq:
  "record_line r = (if record_printable r then Inr (record_text r) else Inl digit_limit_error)"
  by (cases "priority r")
     (simp_all add: record_line_def record_text_def record_printable_def format_int_eq)

lemma record_lines_eq:
  "map_result record_line rs =
     (if list_all record_printable rs then Inr (map record_text rs) else Inl digit_limit_error)"
  by (rule map_result_eq) (rule record_line_eq)

lemma list_all_concat_ints:
  "list_all printable
     (concat (map (\<lambda>r. ttl r # (case priority r of None \<Rightarrow> [] | Some p \<Rightarrow> [p])) rs))
   = list_all record_printable rs"
  by (induction rs) (auto simp: record_printable_def split: option.splits)

lemma exported_ints_printable:
  "list_all printable (exported_ints z) \<longleftrightarrow>
     printable (zone_ttl z)
     \<and> (if soa_records z = [] then printable (serial z)
        else list_all (\<lambda>r. printable (ttl r)) (soa_records z))
     \<and> list_all record_printable (other_records z)"
proof -
  have "list_all record_printable (other_records z) =
      list_all record_printable (filter (\<lambda>r. record_type r \<notin> {''SOA'', ''NS''}) (records z))"
    unfolding other_records_def by (rule list_all_mset) simp
  then show ?thesis
    by (simp add: exported_ints_def soa_records_def list_all_concat_ints list.pred_map
        comp_def)
qed

lemma export_lines_eq:
  "export_lines z =
     (if list_all printable (exported_ints z)
      then Inr (head_lines z @ map record_text (other_records z))
      else Inl digit_limit_error)"
  unfolding exported_ints_printable export_lines_def header_lines_eq soa_lines_eq
    record_lines_eq
  by (simp add: ns_lines_eq head_lines_def soa_records_def)

lemma export_bind_format_eq:
  "export_bind_format z =
     (if list_all printable (exported_ints z) then Inr (zone_text z (other_records z))
      else Inl digit_limit_error)"
  by (simp add: export_bind_format_def export_lines_eq zone_text_def)

lemma trailing_newlines_snoc_nl:
  "trailing_newlines (s @ ''\<newline>'') = Suc (trailing_newlines s)"
  by (simp add: trailing_newlines_def)

lemma trailing_newlines_zero:
  "trailing_newlines s = 0 \<longleftrightarrow> s = [] \<or> last s \<noteq> CHR 0x0A"
  by (cases s rule: rev_cases) (simp_all add: trailing_newlines_def)

lemma py_join_snoc:
  "py_join sep (xs @ [l]) = (if xs = [] then l else py_join sep xs @ sep @ l)"
  by (induction sep xs rule: py_join.induct) auto

lemma trailing_newlines_join:
  assumes "pre \<noteq> []"
  shows "trailing_newlines (py_join ''\<newline>'' (pre @ [l]) @ ''\<newline>'') = 1
     \<longleftrightarrow> l \<noteq> [] \<and> last l \<noteq> CHR 0x0A"
proof -
  let ?body = "(py_join ''\<newline>'' pre @ ''\<newline>'') @ l"
  have "py_join ''\<newline>'' (pre @ [l]) = ?body"
    using assms by (simp add: py_join_snoc)
  then have "trailing_newlines (py_join ''\<newline>'' (pre @ [l]) @ ''\<newline>'')
      = Suc (trailing_newlines ?body)"
    by (simp only: trailing_newlines_snoc_nl)
  moreover have "trailing_newlines ?body = 0 \<longleftrightarrow> l \<noteq> [] \<and> last l \<noteq> CHR 0x0A"
    unfolding trailing_newlines_zero by simp
  ultimately show ?thesis by simp
qed

lemma head_lines_last: "\<exists>pre. pre \<noteq> [] \<and> head_lines z = pre @ [[]]"
proof -
  let ?pre = "butlast (head_lines z)"
  have "head_lines z = ?pre @ [[]]" "?pre \<noteq> []"
    by (simp_all add: head_lines_def butlast_append)
  then show ?thesis by blast
qed

lemma record_text_last:
  "record_text r \<noteq> [] \<and>
   (last (record_text r) = CHR 0x0A \<longleftrightarrow> rvalue r \<noteq> [] \<and> last (rvalue r) = CHR 0x0A)"
  by (cases "priority r") (simp_all add: record_text_def)

lemma zone_text_newlines:
  "1 \<le> trailing_newlines (zone_text z rs)
   \<and> (trailing_newlines (zone_text z rs) = 1 \<longleftrightarrow>
        rs \<noteq> [] \<and> (rvalue (last rs) = [] \<or> last (rvalue (last rs)) \<noteq> CHR 0x0A))"
proof -
  have one: "1 \<le> trailing_newlines (zone_text z rs)"
    unfolding zone_text_def trailing_newlines_snoc_nl by simp
  have "trailing_newlines (zone_text z rs) = 1 \<longleftrightarrow>
        rs \<noteq> [] \<and> (rvalue (last rs) = [] \<or> last (rvalue (last rs)) \<noteq> CHR 0x0A)"
  proof (cases "rs = []")
    case True
    obtain pre where pre: "pre \<noteq> []" "head_lines z = pre @ [[]]"
      using head_lines_last by blast
    have "zone_text z rs = py_join ''\<newline>'' (pre @ [[]]) @ ''\<newline>''"
      using True pre(2) by (simp add: zone_text_def)
    then show ?thesis
      using trailing_newlines_join [OF pre(1), of "[]"] True by simp
  next
    case False
    then have "map record_text rs = map record_text (butlast rs @ [last rs])"
      by simp
    also have "\<dots> = map record_text (butlast rs) @ [record_text (last rs)]"
      by (simp only: map_append list.map)
    finally have "zone_text z rs =
        py_join ''\<newline>'' ((head_lines z @ map record_text (butlast rs))
          @ [record_text (last rs)]) @ ''\<newline>''"
      by (simp add: zone_text_def)
    moreover have ne: "head_lines z @ map record_text (butlast rs) \<noteq> []"
      by (simp add: head_lines_def)
    ultimately have "trailing_newlines (zone_text z rs) = 1 \<longleftrightarrow>
        record_text (last rs) \<noteq> [] \<and> last (record_text (last rs)) \<noteq> CHR 0x0A"
      using trailing_newlines_join [OF ne, of "record_text (last rs)"] by (simp only:)
    then show ?thesis
      using False record_text_last [of "last rs"] by auto
  qed
  with one show ?thesis by simp
qed

text \<open>
  Claim C6, as amended. The exporter is not total: formatting an integer of more than
  4300 digits raises \<open>ValueError\<close>, so the call returns a text exactly when every
  integer it formats is below that limit, and raises otherwise. A text it returns always
  ends with a newline. It ends with exactly one newline if and only if the zone has a
  record whose type is neither SOA nor NS and the value of the last record written does
  not itself end with a newline; otherwise it ends with more than one.
\<close>

theorem export_trailing_newline:
  "(case export_bind_format z of
      Inl e \<Rightarrow> e = digit_limit_error \<and> \<not> list_all printable (exported_ints z)
    | Inr txt \<Rightarrow>
        list_all printable (exported_ints z)
        \<and> 1 \<le> trailing_newlines txt
        \<and> (trailing_newlines txt = 1 \<longleftrightarrow>
             other_records z \<noteq> [] \<and>
             (rvalue (last (other_records z)) = [] \<or>
              last (rvalue (last (other_records z))) \<noteq> CHR 0x0A)))"
  using zone_text_newlines [of z "other_records z"]
  by (simp add: export_bind_format_eq)

lemma sample_zone_export: "export_bind_format sample_zone = Inr sample_zone_text"
  by code_simp

theorem export_trailing_newline_witness:
  "export_bind_format sample_zone = Inr sample_zone_text
   \<and> list_all printable (exported_ints sample_zone)
   \<and> trailing_newlines sample_zone_text = 1"
proof -
  have "rvalue (last (other_records sample_zone)) = ''mail.example.com.''"
    by code_simp
  moreover have "other_records sample_zone \<noteq> []"
    by code_simp
  ultimately show ?thesis
    using export_trailing_newline [of sample_zone] by (simp add: sample_zone_export)
qed

text \<open>
  The claim as it was stated fails for a zone without records: the last line the exporter
  writes is the empty line after the NS block, and the text ends with two newlines.
\<close>

theorem export_one_trailing_newline_counterexample:
  "\<not> (\<exists>txt. export_bind_format example_zone = Inr txt \<and> trailing_newlines txt = 1)"
proof -
  have "export_bind_format example_zone =
      Inr (''; Zone file for test.example.com\<newline>''
           @ ''; Generated by blackroad-zone-manager\<newline>''
           @ ''$ORIGIN test.example.com.\<newline>''
           @ ''$TTL 3600\<newline>''
           @ ''\<newline>''
           @ ''@ 3600 IN SOA ns1.test.example.com. hostmaster.test.example.com. ''
           @ ''( 2024060701 3600 900 604800 300 )\<newline>''
           @ ''\<newline>''
           @ ''@ 3600 IN NS ns1.blackroad.io.\<newline>''
           @ ''@ 3600 IN NS ns2.blackroad.io.\<newline>''
           @ ''\<newline>'')"
    by code_simp
  then show ?thesis by (simp add: trailing_newlines_def)
qed

text \<open>
  It fails, too, for a zone with a TTL of 4301 digits: the exporter raises.
\<close>

lemma long_ttl_not_printable: "\<not> printable long_ttl"
proof -
  have "abs ((10::int) ^ 4300) = 10 ^ 4300"
    by (rule abs_of_nonneg) (rule zero_le_power, simp)
  then show ?thesis
    unfolding printable_def long_ttl_def by (simp only: less_irrefl not_False_eq_True)
qed

lemma export_raises_on_long_ttl:
  "export_bind_format (example_zone\<lparr>zone_ttl := long_ttl\<rparr>) = Inl digit_limit_error"
  using long_ttl_not_printable by (simp add: export_bind_format_eq exported_ints_def)

lemma sort_key_of_le:
  "sort_key_of r \<le> sort_key_of r' \<longleftrightarrow>
     record_type r < record_type r' \<or> (record_type r = record_type r' \<and> name r \<le> name r')"
  by (auto simp: sort_key_of_def)

lemma other_records_sorted:
  "sorted_wrt (\<lambda>r r'. record_type r < record_type r'
                 \<or> (record_type r = record_type r' \<and> name r \<le> name r'))
     (other_records z)"
proof -
  have "sorted (map sort_key_of (other_records z))"
    by (simp add: other_records_def)
  then show ?thesis
    by (simp add: sorted_map sort_key_of_le)
qed

lemma other_records_stable:
  "filter (\<lambda>r. record_type r = t \<and> name r = n) (other_records z) =
     filter (\<lambda>r. record_type r = t \<and> name r = n)
       (filter (\<lambda>r. record_type r \<notin> {''SOA'', ''NS''}) (records z))"
proof -
  have "(\<lambda>r. record_type r = t \<and> name r = n) = (\<lambda>r. sort_key_of r = (t, n))"
    by (auto simp: sort_key_of_def)
  then show ?thesis
    by (simp only: other_records_def sort_key_stable)
qed

text \<open>
  Claim C7. A text the exporter returns is the zone file of the specification in which,
  after the NS block and the blank line that ends it, there is one line per record whose
  type is neither SOA nor NS, and nothing else: the records written are those records of
  the zone, each as often as it occurs, in ascending order of the pair (type, name), the
  types compared first and the names when the types are equal, strings compared
  character by character; records with the same type and name keep the order they have
  in the zone. The lines before them follow the order of the zone's lists (the SOA
  records in the order of the record list, the nameservers in the order of their list).
\<close>

theorem export_other_records_sorted:
  assumes "export_bind_format z = Inr txt"
  shows "\<exists>rs. txt = zone_text z rs
     \<and> mset rs = mset (filter (\<lambda>r. record_type r \<notin> {''SOA'', ''NS''}) (records z))
     \<and> sorted_wrt (\<lambda>r r'. record_type r < record_type r'
                      \<or> (record_type r = record_type r' \<and> name r \<le> name r')) rs
     \<and> (\<forall>t n. filter (\<lambda>r. record_type r = t \<and> name r = n) rs =
                filter (\<lambda>r. record_type r = t \<and> name r = n)
                  (filter (\<lambda>r. record_type r \<notin> {''SOA'', ''NS''}) (records z)))"
proof -
  from assms have e: "txt = zone_text z (other_records z)"
    by (simp add: export_bind_format_eq split: if_splits)
  have m: "mset (other_records z) =
      mset (filter (\<lambda>r. record_type r \<notin> {''SOA'', ''NS''}) (records z))"
    by (simp add: other_records_def)
  show ?thesis
    by (rule exI [where x = "other_records z"])
       (simp only: e m other_records_sorted other_records_stable simp_thms)
qed

theorem export_other_records_sorted_witness:
  "export_bind_format sample_zone = Inr sample_zone_text
   \<and> (\<exists>rs. sample_zone_text = zone_text sample_zone rs
     \<and> mset rs = mset (filter (\<lambda>r. record_type r \<notin> {''SOA'', ''NS''}) (records sample_zone))
     \<and> sorted_wrt (\<lambda>r r'. record_type r < record_type r'
                      \<or> (record_type r = record_type r' \<and> name r \<le> name r')) rs
     \<and> (\<forall>t n. filter (\<lambda>r. record_type r = t \<and> name r = n) rs =
                filter (\<lambda>r. record_type r = t \<and> name r = n)
                  (filter (\<lambda>r. record_type r \<notin> {''SOA'', ''NS''}) (records sample_zone))))"
  by (rule conjI [OF sample_zone_export export_other_records_sorted [OF sample_zone_export]])

section \<open>Properties of \<open>validate_record\<close>\<close>

text \<open>
  Claim C5. The claim says that \<open>validate_record\<close> returns the empty list exactly for
  the records that satisfy the rules of the specification. The source checks the value
  with regular expressions that end in \<open>$\<close>, and in Python \<open>$\<close> also matches just
  before a newline that ends the string: the A record with the value \<open>1.2.3.4\<close>
  followed by a newline passes \<open>validate_record\<close>, although that value is not a dotted
  quad.
\<close>

theorem validate_record_accepts_trailing_newline:
  "validate_record newline_record = [] \<and> \<not> record_ok newline_record"
  by code_simp

section \<open>Errors of the importer\<close>

text \<open>
  Claim C2. The claim says that the importer never raises on malformed content. The
  source reads the second token of a directive with \<open>line.split()[1]\<close> and converts the
  TTL with \<open>int\<close>, and it reads the first token of an MX or SRV value with
  \<open>value.split()[0]\<close>, none of them guarded: a \<open>$TTL\<close> directive whose second token is
  not an integer raises \<open>ValueError\<close>, a directive without a second token raises
  \<open>IndexError\<close>, and so does an MX line of four tokens, whose value is empty.
\<close>

theorem import_raises_on_malformed:
  "import_zone_file (Some ''$TTL abc\<newline>'') path stem today
     = Inl (ValueError ''invalid literal for int() with base 10'')
   \<and> import_zone_file (Some ''$ORIGIN\<newline>'') path stem today = Inl IndexError
   \<and> import_zone_file (Some ''mail 300 IN MX\<newline>'') path stem today = Inl IndexError"
  by code_simp

section \<open>Tokens\<close>

text \<open>
  \<open>split()\<close> cuts a string at its whitespace. The lemmas of this section relate it to
  concatenation, to \<open>strip()\<close> and to \<open>" ".join\<close>.
\<close>

lemma no_space_simps [simp]:
  "no_space []"
  "no_space (c # s) \<longleftrightarrow> \<not> is_space c \<and> no_space s"
  "no_space (s @ t) \<longleftrightarrow> no_space s \<and> no_space t"
  by (auto simp: no_space_def)

lemma split_aux_no_space:
  "no_space t \<Longrightarrow> split_aux cur (t @ rest) = split_aux (cur @ t) rest"
  by (induction t arbitrary: cur) simp_all

lemma split_aux_append_space:
  "is_space c \<Longrightarrow> split_aux cur (a @ c # b) = split_aux cur a @ split_aux [] b"
  by (induction a arbitrary: cur) simp_all


lemma py_split_Nil [simp]: "py_split [] = []"
  by (simp add: py_split_def)

lemma py_split_token: "is_token t \<Longrightarrow> py_split t = [t]"
  using split_aux_no_space [of t "[]" "[]"] by (simp add: py_split_def is_token_def)


lemma py_split_append_space:
  "is_space c \<Longrightarrow> py_split (a @ c # b) = py_split a @ py_split b"
  by (simp add: py_split_def split_aux_append_space)

lemma py_split_token_space:
  "is_token t \<Longrightarrow> is_space c \<Longrightarrow> py_split (t @ c # rest) = t # py_split rest"
  by (simp add: py_split_append_space py_split_token)





lemma split_aux_tokens:
  "no_space cur \<Longrightarrow> t \<in> set (split_aux cur s) \<Longrightarrow> is_token t"
  by (induction cur s rule: split_aux.induct) (auto simp: is_token_def split: if_splits)

lemma py_split_tokens: "t \<in> set (py_split s) \<Longrightarrow> is_token t"
  using split_aux_tokens [of "[]" t s] by (simp add: py_split_def)

lemma py_split_join:
  "list_all is_token ts \<Longrightarrow> py_split (py_join '' '' ts) = ts"
proof (induction "'' ''" ts rule: py_join.induct)
  case 1
  then show ?case by simp
next
  case (2 x)
  then show ?case by (simp add: py_split_token)
next
  case (3 x y ys)
  have sp: "is_space CHR '' ''" by (simp add: is_space_def)
  from 3 show ?case
    using py_split_token_space [OF _ sp, of x "py_join '' '' (y # ys)"] by simp
qed

lemma is_space_chars [simp]:
  "is_space CHR '' ''" "is_space CHR 0x0A" "is_space CHR 0x0D"
  by (simp_all add: is_space_def)












section \<open>Properties of the importer\<close>










end
